theory Spec2Isabelle
  imports Main
begin

section \<open>The registry API of \<open>src/core/api.ts\<close>\<close>

subsection \<open>Storage objects\<close>

text \<open>
  Each registry is a plain JavaScript object created by the literal \<open>{}\<close> and kept on
  the collection under one of the keys \<open>LINK_STORAGE\<close>, \<open>REDUCER_STORAGE\<close>,
  \<open>EXPANDER_STORAGE\<close>. Its own properties are a finite map from names to values.
  A read \<open>obj[name]\<close> returns the own property when there is one and otherwise
  walks the prototype chain: an object made by \<open>{}\<close> has \<open>Object.prototype\<close> as
  prototype, whose properties are listed in \<open>Object_prototype_keys\<close>.
\<close>

type_synonym 'v js_object = "string \<rightharpoonup> 'v"

definition Object_prototype_keys :: "string list" where
  "Object_prototype_keys =
     [''constructor'', ''__defineGetter__'', ''__defineSetter__'', ''hasOwnProperty'',
      ''__lookupGetter__'', ''__lookupSetter__'', ''isPrototypeOf'',
      ''propertyIsEnumerable'', ''toString'', ''valueOf'', ''__proto__'',
      ''toLocaleString'']"

text \<open>
  The result of a property read: \<open>undefined\<close>, a value stored by a registration call,
  or the member of \<open>Object.prototype\<close> of that name (a function, or for
  \<open>__proto__\<close> the prototype object itself).
\<close>

datatype 'v js_value = Undefined | Stored 'v | Inherited string

definition get_property :: "'v js_object \<Rightarrow> string \<Rightarrow> 'v js_value" where
  "get_property obj name =
     (case obj name of
        Some v \<Rightarrow> Stored v
      | None \<Rightarrow> if name \<in> set Object_prototype_keys then Inherited name else Undefined)"

text \<open>
  Truthiness as tested by \<open>if (x)\<close>, \<open>!x\<close> and \<open>Boolean(x)\<close>. The stored values are
  \<open>Linker\<close> instances, \<open>ReducerOption\<close> objects and \<open>QueryBody\<close> objects: objects
  are truthy, and so are the members of \<open>Object.prototype\<close>.
\<close>

fun truthy :: "'v js_value \<Rightarrow> bool" where
  "truthy Undefined = False"
| "truthy (Stored v) = True"
| "truthy (Inherited k) = True"

subsection \<open>Collections and errors\<close>

text \<open>
  The part of a collection handle that the API touches. A storage that was never
  assigned reads as \<open>undefined\<close> (\<open>None\<close>). The three keys come from
  \<open>./constants\<close> and are distinct property keys.
\<close>

record ('l, 'r, 'e) ICollection =
  collectionName :: string
  LINK_STORAGE :: "'l js_object option"
  REDUCER_STORAGE :: "'r js_object option"
  EXPANDER_STORAGE :: "'e js_object option"

text \<open>
  One constructor for each \<open>throw\<close> of the file, and one for a throwing \<open>Linker\<close>
  constructor. The message of the first reads \<open>this.collectionName\<close> where the sibling
  functions read \<open>collection.collectionName\<close>; whatever error object that produces, the
  call throws at that statement, which is all the model records.
\<close>

datatype error =
    LinkAlreadyAdded string
  | LinkerConstructorThrew string
  | ExpanderAlreadyAdded
  | LinkNotFound string
  | ReducerIsLink string
  | ReducerAlreadyAdded string

text \<open>
  A registration call mutates the collection in place and may throw in the middle of its
  loop: its outcome is the error thrown, if any, together with the collection as the call
  leaves it.
\<close>

type_synonym 'c outcome = "error option \<times> 'c"

subsection \<open>Operations\<close>

definition clear :: "('l, 'r, 'e) ICollection \<Rightarrow> ('l, 'r, 'e) ICollection" where
  "clear collection =
     collection\<lparr>LINK_STORAGE := Some Map.empty,
                REDUCER_STORAGE := Some Map.empty,
                EXPANDER_STORAGE := Some Map.empty\<rparr>"

text \<open>
  The body of \<open>_.forEach(data, ...)\<close> in \<open>addLinks\<close>, run over the entries of \<open>data\<close> in
  iteration order on the storage object, which it mutates in place. The class \<open>Linker\<close>
  (\<open>./query/Linker\<close>) and the constant \<open>LINK_COLLECTION_OPTIONS_DEFAULTS\<close> are
  parameters: \<open>Linker collection linkName opts\<close> is the instance that
  \<open>new Linker(collection, linkName, opts)\<close> builds for the collection as it is at that
  moment, or \<open>None\<close> when the constructor throws; the constructor does not write the
  registries. The object spread \<open>{...defaults, ...linkConfig}\<close> is
  \<open>defaults ++ linkConfig\<close>.
\<close>

fun addLinks_forEach ::
  "(('l, 'r, 'e) ICollection \<Rightarrow> string \<Rightarrow> 'o js_object \<Rightarrow> 'l option) \<Rightarrow> 'o js_object \<Rightarrow>
   ('l, 'r, 'e) ICollection \<Rightarrow> 'l js_object \<Rightarrow> (string \<times> 'o js_object) list \<Rightarrow>
   error option \<times> 'l js_object" where
  "addLinks_forEach Linker defaults collection storage [] = (None, storage)"
| "addLinks_forEach Linker defaults collection storage ((linkName, linkConfig) # rest) =
     (if truthy (get_property storage linkName)
      then (Some (LinkAlreadyAdded linkName), storage)
      else case Linker (collection\<lparr>LINK_STORAGE := Some storage\<rparr>) linkName
                  (defaults ++ linkConfig) of
             None \<Rightarrow> (Some (LinkerConstructorThrew linkName), storage)
           | Some linker \<Rightarrow>
               addLinks_forEach Linker defaults collection (storage(linkName \<mapsto> linker)) rest)"

definition addLinks ::
  "(('l, 'r, 'e) ICollection \<Rightarrow> string \<Rightarrow> 'o js_object \<Rightarrow> 'l option) \<Rightarrow> 'o js_object \<Rightarrow>
   ('l, 'r, 'e) ICollection \<Rightarrow> (string \<times> 'o js_object) list \<Rightarrow>
   ('l, 'r, 'e) ICollection outcome" where
  "addLinks Linker defaults collection data =
     (let storage = (case LINK_STORAGE collection of None \<Rightarrow> Map.empty | Some s \<Rightarrow> s);
          (err, storage') = addLinks_forEach Linker defaults collection storage data
      in (err, collection\<lparr>LINK_STORAGE := Some storage'\<rparr>))"

fun addExpanders_forEach ::
  "'e js_object \<Rightarrow> (string \<times> 'e) list \<Rightarrow> error option \<times> 'e js_object" where
  "addExpanders_forEach storage [] = (None, storage)"
| "addExpanders_forEach storage ((expanderName, expanderConfig) # rest) =
     (if truthy (get_property storage expanderName)
      then (Some ExpanderAlreadyAdded, storage)
      else addExpanders_forEach (storage(expanderName \<mapsto> expanderConfig)) rest)"

definition addExpanders ::
  "('l, 'r, 'e) ICollection \<Rightarrow> (string \<times> 'e) list \<Rightarrow> ('l, 'r, 'e) ICollection outcome" where
  "addExpanders collection data =
     (let storage = (case EXPANDER_STORAGE collection of None \<Rightarrow> Map.empty | Some s \<Rightarrow> s);
          (err, storage') = addExpanders_forEach storage data
      in (err, collection\<lparr>EXPANDER_STORAGE := Some storage'\<rparr>))"

definition getLinker :: "('l, 'r, 'e) ICollection \<Rightarrow> string \<Rightarrow> error + 'l js_value" where
  "getLinker collection name =
     (case LINK_STORAGE collection of
        None \<Rightarrow> Inl (LinkNotFound name)
      | Some storage \<Rightarrow>
          if truthy (get_property storage name) then Inr (get_property storage name)
          else Inl (LinkNotFound name))"

definition hasLinker :: "('l, 'r, 'e) ICollection \<Rightarrow> string \<Rightarrow> bool" where
  "hasLinker collection name =
     (case LINK_STORAGE collection of
        None \<Rightarrow> False
      | Some storage \<Rightarrow> truthy (get_property storage name))"

definition getReducerConfig :: "('l, 'r, 'e) ICollection \<Rightarrow> string \<Rightarrow> 'r js_value" where
  "getReducerConfig collection name =
     (case REDUCER_STORAGE collection of
        None \<Rightarrow> Undefined
      | Some storage \<Rightarrow> get_property storage name)"

definition getExpanderConfig :: "('l, 'r, 'e) ICollection \<Rightarrow> string \<Rightarrow> 'e js_value" where
  "getExpanderConfig collection name =
     (case EXPANDER_STORAGE collection of
        None \<Rightarrow> Undefined
      | Some storage \<Rightarrow> get_property storage name)"

text \<open>
  The body of \<open>Object.keys(data).forEach(...)\<close> in \<open>addReducers\<close>. It reads the link
  registry of the collection through \<open>hasLinker\<close> and writes the reducer storage only.
\<close>

fun addReducers_forEach ::
  "('l, 'r, 'e) ICollection \<Rightarrow> 'r js_object \<Rightarrow> (string \<times> 'r) list \<Rightarrow>
   error option \<times> 'r js_object" where
  "addReducers_forEach collection storage [] = (None, storage)"
| "addReducers_forEach collection storage ((reducerName, reducerConfig) # rest) =
     (if hasLinker collection reducerName
      then (Some (ReducerIsLink reducerName), storage)
      else if truthy (get_property storage reducerName)
      then (Some (ReducerAlreadyAdded reducerName), storage)
      else addReducers_forEach collection (storage(reducerName \<mapsto> reducerConfig)) rest)"

definition addReducers ::
  "('l, 'r, 'e) ICollection \<Rightarrow> (string \<times> 'r) list \<Rightarrow> ('l, 'r, 'e) ICollection outcome" where
  "addReducers collection data =
     (let storage = (case REDUCER_STORAGE collection of None \<Rightarrow> Map.empty | Some s \<Rightarrow> s);
          (err, storage') = addReducers_forEach collection storage data
      in (err, collection\<lparr>REDUCER_STORAGE := Some storage'\<rparr>))"


subsection \<open>The entries of a registry\<close>

text \<open>
  The own properties of a storage object, with a storage that was never created read as
  having none. These are the names that registration calls have stored.
\<close>

definition link_entries :: "('l, 'r, 'e) ICollection \<Rightarrow> 'l js_object" where
  "link_entries c = (case LINK_STORAGE c of None \<Rightarrow> Map.empty | Some s \<Rightarrow> s)"

definition reducer_entries :: "('l, 'r, 'e) ICollection \<Rightarrow> 'r js_object" where
  "reducer_entries c = (case REDUCER_STORAGE c of None \<Rightarrow> Map.empty | Some s \<Rightarrow> s)"

definition expander_entries :: "('l, 'r, 'e) ICollection \<Rightarrow> 'e js_object" where
  "expander_entries c = (case EXPANDER_STORAGE c of None \<Rightarrow> Map.empty | Some s \<Rightarrow> s)"

subsection \<open>Example data\<close>

text \<open>
  A \<open>Linker\<close> constructor that never throws and keeps its arguments, a defaults object,
  a collection on which nothing was registered yet, and the same collection after
  \<open>addLinks(c, {author: {field: "authorId"}})\<close>,
  \<open>addReducers(c, {commentCount: ...})\<close> and \<open>addExpanders(c, {withAuthor: ...})\<close>.
\<close>

definition plain_Linker ::
  "(string \<times> string js_object, string, string) ICollection \<Rightarrow> string \<Rightarrow> string js_object \<Rightarrow>
   (string \<times> string js_object) option" where
  "plain_Linker collection linkName opts = Some (linkName, opts)"

definition example_defaults :: "string js_object" where
  "example_defaults = [''strategy'' \<mapsto> ''one'']"

definition no_options :: "string js_object" where
  "no_options = Map.empty"

definition author_options :: "string js_object" where
  "author_options = [''field'' \<mapsto> ''authorId'']"

definition fresh_collection :: "(string \<times> string js_object, string, string) ICollection" where
  "fresh_collection =
     \<lparr>collectionName = ''posts'', LINK_STORAGE = None, REDUCER_STORAGE = None,
      EXPANDER_STORAGE = None\<rparr>"

definition example_collection :: "(string \<times> string js_object, string, string) ICollection" where
  "example_collection =
     \<lparr>collectionName = ''posts'',
      LINK_STORAGE = Some [''author'' \<mapsto> (''author'', example_defaults ++ author_options)],
      REDUCER_STORAGE = Some [''commentCount'' \<mapsto> ''reducer config''],
      EXPANDER_STORAGE = Some [''withAuthor'' \<mapsto> ''expander body'']\<rparr>"

definition conflicting_links :: "(string \<times> string js_object) list" where
  "conflicting_links = [(''comments'', no_options), (''author'', no_options)]"

definition conflicting_reducers :: "(string \<times> string) list" where
  "conflicting_reducers = [(''total'', ''sum''), (''author'', ''name'')]"

definition conflicting_expanders :: "(string \<times> string) list" where
  "conflicting_expanders = [(''withTags'', ''tags''), (''withAuthor'', ''again'')]"




section \<open>Batched execution and result assembly\<close>

text \<open>
  \<open>query(collection, body)\<close> only builds \<open>new Query(collection, body)\<close>: the classes
  \<open>Query\<close> and \<open>Linker\<close>, the executor and the assembler are not among the source
  files. Everything in this section is therefore written from the specification
  (sections 3, 4.4, 4.5 and 7), not from code. Reducers, expanders and field projections
  play no part in the two properties stated about it and are left out.
\<close>

subsection \<open>Documents, relations and request nodes\<close>

text \<open>
  Modelled from the spec: the documents of the backing store, which is an external
  collaborator. A document has an identifier and named fields; a field holds a plain value,
  the foreign keys of a relation, or, after assembly, a nested document or an array of
  documents.
\<close>

datatype document = Document (doc_id: nat) (doc_fields: "(string \<times> field_value) list")
  and field_value = Plain string | Keys "nat list" | Nested document | Array "document list"

text \<open>Modelled from the spec: the cardinality of a RelationDescriptor (\<open>single|many\<close>).\<close>

datatype cardinality = Single | Many

text \<open>
  Modelled from the spec: the direction of a RelationDescriptor (\<open>direct\<close>: key on the
  source; \<open>inverse\<close>: key on the target).
\<close>

datatype direction = Direct | Inverse

text \<open>
  Modelled from the spec: the RelationDescriptor of section 3, which the missing class
  \<open>Linker\<close> implements (target collection, foreign-key path, cardinality, direction,
  uniqueness). Sections 4.4 and 4.5 and the glossary divide relations into unique ones
  and non-unique, array-valued ones; \<open>unique\<close> is that property. The spec does not say
  how it follows from the other fields, so it is a field of its own.
\<close>

record RelationDescriptor =
  target :: string
  keyPath :: string
  cardinality :: cardinality
  direction :: direction
  unique :: bool

text \<open>
  Modelled from the spec: the filter and the sort/limit/skip options of a RequestNode;
  the filter language belongs to the store and stays abstract.
\<close>

record 'f node_config =
  filters :: 'f
  sort :: "string option"
  limit :: "nat option"
  skip :: "nat option"

text \<open>
  Modelled from the spec: a node's meta block is a static object, or for a dynamic node a
  function of the parent document (section 9: \<open>Static(...)\<close> versus \<open>Dynamic(parent -> ...)\<close>).
\<close>

datatype 'f node_meta = Static "'f node_config" | Dynamic "document \<Rightarrow> 'f node_config"

text \<open>
  Modelled from the spec: a child RequestNode of section 3, as the missing compiler
  produces it: the projection key its results are attached under, the relation it
  resolves to, its meta block and its ordered child nodes.
\<close>

datatype 'f RequestNode = RequestNode
  (field_name: string)
  (relation: RelationDescriptor)
  (meta: "'f node_meta")
  (children: "'f RequestNode list")


text \<open>
  Modelled from the spec: one native operation sent to the store (section 4.4): the path
  of the node it is issued for, the collection, the condition "foreign key in that set"
  (absent at the root), and the node's filter and options.
\<close>

record 'f store_operation =
  op_path :: "string list"
  op_collection :: string
  op_match :: "(string \<times> nat list) option"
  op_config :: "'f node_config"




subsection \<open>The fetch phase\<close>

text \<open>Modelled from the spec: the foreign keys a document stores under a key path.\<close>

definition keys_at :: "document \<Rightarrow> string \<Rightarrow> nat list" where
  "keys_at d path = (case map_of (doc_fields d) path of Some (Keys ks) \<Rightarrow> ks | _ \<Rightarrow> [])"

text \<open>
  Modelled from the spec: the key values one parent contributes to a child node's
  operation: its own identifier for an inverse relation (the key is on the target), the
  keys it stores for a direct one.
\<close>

definition parent_keys :: "RelationDescriptor \<Rightarrow> document \<Rightarrow> nat list" where
  "parent_keys rel p = (if direction rel = Inverse then [doc_id p] else keys_at p (keyPath rel))"

text \<open>Modelled from the spec: the field of the target collection that the keys are matched against.\<close>

definition match_field :: "RelationDescriptor \<Rightarrow> string" where
  "match_field rel = (if direction rel = Inverse then keyPath rel else ''_id'')"

text \<open>
  Modelled from the spec: "the deduplicated set of foreign-key values referenced across
  P" (section 4.4).
\<close>

definition foreign_keys :: "RelationDescriptor \<Rightarrow> document list \<Rightarrow> nat list" where
  "foreign_keys rel P = remdups (concat (map (parent_keys rel) P))"

text \<open>Modelled from the spec: a node "declares limit/skip".\<close>

definition paginated :: "'f node_config \<Rightarrow> bool" where
  "paginated cfg = (limit cfg \<noteq> None \<or> skip cfg \<noteq> None)"

text \<open>Modelled from the spec: the operation of a child node for a given key set and options.\<close>

definition node_operation ::
  "string list \<Rightarrow> 'f RequestNode \<Rightarrow> nat list \<Rightarrow> 'f node_config \<Rightarrow> 'f store_operation" where
  "node_operation path n ks cfg =
     \<lparr>op_path = path, op_collection = target (relation n),
      op_match = Some (match_field (relation n), ks), op_config = cfg\<rparr>"

text \<open>
  Modelled from the spec: the operations a child node needs for the parent set \<open>P\<close>
  (section 4.4). A dynamic node invokes its function once per parent document and issues
  one operation per parent; a static node with limit/skip on a non-unique relation issues
  one operation per distinct parent key; any other static node issues one operation for
  the whole key set.
\<close>

definition plan :: "string list \<Rightarrow> 'f RequestNode \<Rightarrow> document list \<Rightarrow> 'f store_operation list" where
  "plan path n P =
     (case meta n of
        Dynamic f \<Rightarrow> map (\<lambda>p. node_operation path n (parent_keys (relation n) p) (f p)) P
      | Static cfg \<Rightarrow>
          if paginated cfg \<and> \<not> unique (relation n)
          then map (\<lambda>k. node_operation path n [k] cfg) (foreign_keys (relation n) P)
          else [node_operation path n (foreign_keys (relation n) P) cfg])"



subsection \<open>The assembly phase\<close>







subsection \<open>Properties of request trees and results\<close>












subsection \<open>An example query\<close>









section \<open>Properties of the registry API\<close>

lemmas api_defs = addLinks_def addReducers_def addExpanders_def getLinker_def hasLinker_def
  getReducerConfig_def getExpanderConfig_def clear_def get_property_def
  Object_prototype_keys_def Let_def

lemmas example_defs = example_collection_def fresh_collection_def plain_Linker_def
  conflicting_links_def conflicting_reducers_def conflicting_expanders_def
  author_options_def no_options_def

text \<open>The example collection is what the three registration calls produce.\<close>

lemma example_collection_registered:
  "snd (addExpanders
       (snd (addReducers
         (snd (addLinks plain_Linker example_defaults fresh_collection
                 [(''author'', author_options)]))
         [(''commentCount'', ''reducer config'')]))
       [(''withAuthor'', ''expander body'')]) = example_collection"
  by (simp add: api_defs example_defs)

subsection \<open>A failed registration call\<close>

text \<open>
  Each loop that stops at a name conflict has, up to that name, run as it does on the
  entries before it.
\<close>

lemma addLinks_forEach_conflict:
  "addLinks_forEach L d c st data = (Some (LinkAlreadyAdded n), st') \<Longrightarrow>
   \<exists>pre cfg post. data = pre @ (n, cfg) # post \<and> addLinks_forEach L d c st pre = (None, st')"
proof (induction data arbitrary: st)
  case Nil
  then show ?case by simp
next
  case (Cons a rest)
  obtain k v where a: "a = (k, v)" by (cases a)
  show ?case
  proof (cases "truthy (get_property st k)")
    case True
    with Cons.prems a have "n = k" "st' = st" by simp_all
    with a have "a # rest = [] @ (n, v) # rest \<and> addLinks_forEach L d c st [] = (None, st')"
      by simp
    then show ?thesis by blast
  next
    case False
    show ?thesis
    proof (cases "L (c\<lparr>LINK_STORAGE := Some st\<rparr>) k (d ++ v)")
      case None
      with False Cons.prems a show ?thesis by simp
    next
      case (Some l)
      with False Cons.prems a
      have "addLinks_forEach L d c (st(k \<mapsto> l)) rest = (Some (LinkAlreadyAdded n), st')"
        by simp
      from Cons.IH [OF this] obtain pre cfg post where
        r: "rest = pre @ (n, cfg) # post" and
        p: "addLinks_forEach L d c (st(k \<mapsto> l)) pre = (None, st')" by blast
      from r a have "a # rest = ((k, v) # pre) @ (n, cfg) # post" by simp
      moreover from p False Some have "addLinks_forEach L d c st ((k, v) # pre) = (None, st')"
        by simp
      ultimately show ?thesis by blast
    qed
  qed
qed

lemma addLinks_run:
  "addLinks_forEach L d c (link_entries c) data = (e, st') \<Longrightarrow>
   addLinks L d c data = (e, c\<lparr>LINK_STORAGE := Some st'\<rparr>)"
  by (simp add: addLinks_def link_entries_def)

lemma addLinks_conflict:
  assumes "fst (addLinks L d c data) = Some (LinkAlreadyAdded n)"
  shows "\<exists>pre cfg post. data = pre @ (n, cfg) # post \<and>
           addLinks L d c pre = (None, snd (addLinks L d c data))"
proof -
  obtain e st' where r: "addLinks_forEach L d c (link_entries c) data = (e, st')"
    by (cases "addLinks_forEach L d c (link_entries c) data")
  from addLinks_run [OF r] assms have e: "e = Some (LinkAlreadyAdded n)"
    by simp
  from addLinks_forEach_conflict [OF r [unfolded e]] obtain pre cfg post where
    d: "data = pre @ (n, cfg) # post" and
    p: "addLinks_forEach L d c (link_entries c) pre = (None, st')" by blast
  from addLinks_run [OF p] addLinks_run [OF r]
  have "addLinks L d c pre = (None, snd (addLinks L d c data))" by simp
  with d show ?thesis by blast
qed

lemma addExpanders_forEach_conflict:
  "addExpanders_forEach st data = (Some ExpanderAlreadyAdded, st') \<Longrightarrow>
   \<exists>pre n cfg post. data = pre @ (n, cfg) # post \<and> addExpanders_forEach st pre = (None, st')"
proof (induction data arbitrary: st)
  case Nil
  then show ?case by simp
next
  case (Cons a rest)
  obtain k v where a: "a = (k, v)" by (cases a)
  show ?case
  proof (cases "truthy (get_property st k)")
    case True
    with Cons.prems a have "st' = st" by simp
    with a have "a # rest = [] @ (k, v) # rest \<and> addExpanders_forEach st [] = (None, st')"
      by simp
    then show ?thesis by blast
  next
    case False
    with Cons.prems a
    have "addExpanders_forEach (st(k \<mapsto> v)) rest = (Some ExpanderAlreadyAdded, st')"
      by simp
    from Cons.IH [OF this] obtain pre n cfg post where
      r: "rest = pre @ (n, cfg) # post" and
      p: "addExpanders_forEach (st(k \<mapsto> v)) pre = (None, st')" by blast
    from r a have "a # rest = ((k, v) # pre) @ (n, cfg) # post" by simp
    moreover from p False have "addExpanders_forEach st ((k, v) # pre) = (None, st')"
      by simp
    ultimately show ?thesis by blast
  qed
qed

lemma addExpanders_run:
  "addExpanders_forEach (expander_entries c) data = (e, st') \<Longrightarrow>
   addExpanders c data = (e, c\<lparr>EXPANDER_STORAGE := Some st'\<rparr>)"
  by (simp add: addExpanders_def expander_entries_def)

lemma addExpanders_conflict:
  assumes "fst (addExpanders c data) = Some ExpanderAlreadyAdded"
  shows "\<exists>pre n cfg post. data = pre @ (n, cfg) # post \<and>
           addExpanders c pre = (None, snd (addExpanders c data))"
proof -
  obtain e st' where r: "addExpanders_forEach (expander_entries c) data = (e, st')"
    by (cases "addExpanders_forEach (expander_entries c) data")
  from addExpanders_run [OF r] assms have e: "e = Some ExpanderAlreadyAdded"
    by simp
  from addExpanders_forEach_conflict [OF r [unfolded e]] obtain pre n cfg post where
    d: "data = pre @ (n, cfg) # post" and
    p: "addExpanders_forEach (expander_entries c) pre = (None, st')" by blast
  from addExpanders_run [OF p] addExpanders_run [OF r]
  have "addExpanders c pre = (None, snd (addExpanders c data))" by simp
  with d show ?thesis by blast
qed

lemma addReducers_forEach_conflict:
  "addReducers_forEach c st data = (Some e, st') \<Longrightarrow>
   e = ReducerIsLink n \<or> e = ReducerAlreadyAdded n \<Longrightarrow>
   \<exists>pre cfg post. data = pre @ (n, cfg) # post \<and> addReducers_forEach c st pre = (None, st')"
proof (induction data arbitrary: st)
  case Nil
  then show ?case by simp
next
  case (Cons a rest)
  obtain k v where a: "a = (k, v)" by (cases a)
  show ?case
  proof (cases "hasLinker c k \<or> truthy (get_property st k)")
    case True
    with Cons.prems a have "n = k" "st' = st" by (auto split: if_splits)
    with a have "a # rest = [] @ (n, v) # rest \<and> addReducers_forEach c st [] = (None, st')"
      by simp
    then show ?thesis by blast
  next
    case False
    with Cons.prems a
    have "addReducers_forEach c (st(k \<mapsto> v)) rest = (Some e, st')"
      by simp
    from Cons.IH [OF this Cons.prems(2)] obtain pre cfg post where
      r: "rest = pre @ (n, cfg) # post" and
      p: "addReducers_forEach c (st(k \<mapsto> v)) pre = (None, st')" by blast
    from r a have "a # rest = ((k, v) # pre) @ (n, cfg) # post" by simp
    moreover from p False have "addReducers_forEach c st ((k, v) # pre) = (None, st')"
      by simp
    ultimately show ?thesis by blast
  qed
qed

lemma addReducers_run:
  "addReducers_forEach c (reducer_entries c) data = (e, st') \<Longrightarrow>
   addReducers c data = (e, c\<lparr>REDUCER_STORAGE := Some st'\<rparr>)"
  by (simp add: addReducers_def reducer_entries_def)

lemma addReducers_conflict:
  assumes "fst (addReducers c data) = Some e"
    and "e = ReducerIsLink n \<or> e = ReducerAlreadyAdded n"
  shows "\<exists>pre cfg post. data = pre @ (n, cfg) # post \<and>
           addReducers c pre = (None, snd (addReducers c data))"
proof -
  obtain e' st' where r: "addReducers_forEach c (reducer_entries c) data = (e', st')"
    by (cases "addReducers_forEach c (reducer_entries c) data")
  from addReducers_run [OF r] assms have e: "e' = Some e"
    by simp
  from addReducers_forEach_conflict [OF r [unfolded e] assms(2)] obtain pre cfg post where
    d: "data = pre @ (n, cfg) # post" and
    p: "addReducers_forEach c (reducer_entries c) pre = (None, st')" by blast
  from addReducers_run [OF p] addReducers_run [OF r]
  have "addReducers c pre = (None, snd (addReducers c data))" by simp
  with d show ?thesis by blast
qed

text \<open>
  A call that registers nothing leaves every entry as it was; it only creates the storage
  object when there was none.
\<close>

lemma empty_registration:
  "addLinks L d c [] = (None, c\<lparr>LINK_STORAGE := Some (link_entries c)\<rparr>)"
  "addReducers c [] = (None, c\<lparr>REDUCER_STORAGE := Some (reducer_entries c)\<rparr>)"
  "addExpanders c [] = (None, c\<lparr>EXPANDER_STORAGE := Some (expander_entries c)\<rparr>)"
  by (simp_all add: addLinks_def addReducers_def addExpanders_def link_entries_def
      reducer_entries_def expander_entries_def)

text \<open>
  Whatever its outcome, a registration call never removes or replaces an entry that was
  registered before it, and it writes to its own registry only.
\<close>

lemma not_truthy_unregistered:
  "\<not> truthy (get_property st n) \<Longrightarrow> st n = None"
  by (simp add: get_property_def split: option.splits if_splits)

lemma addLinks_forEach_keeps:
  "addLinks_forEach L d c st data = (e, st') \<Longrightarrow> st k = Some l \<Longrightarrow> st' k = Some l"
proof (induction data arbitrary: st)
  case Nil
  then show ?case by simp
next
  case (Cons a rest)
  obtain n v where a: "a = (n, v)" by (cases a)
  show ?case
  proof (cases "truthy (get_property st n)")
    case True
    with Cons.prems a show ?thesis by simp
  next
    case False
    then have "st n = None" by (rule not_truthy_unregistered)
    with Cons.prems(2) have nk: "n \<noteq> k" by auto
    show ?thesis
    proof (cases "L (c\<lparr>LINK_STORAGE := Some st\<rparr>) n (d ++ v)")
      case None
      with False Cons.prems a show ?thesis by simp
    next
      case (Some linker)
      with False Cons.prems(1) a
      have "addLinks_forEach L d c (st(n \<mapsto> linker)) rest = (e, st')" by simp
      moreover from nk Cons.prems(2) have "(st(n \<mapsto> linker)) k = Some l" by simp
      ultimately show ?thesis by (rule Cons.IH)
    qed
  qed
qed

lemma addReducers_forEach_keeps:
  "addReducers_forEach c st data = (e, st') \<Longrightarrow> st k = Some r \<Longrightarrow> st' k = Some r"
proof (induction data arbitrary: st)
  case Nil
  then show ?case by simp
next
  case (Cons a rest)
  obtain n v where a: "a = (n, v)" by (cases a)
  show ?case
  proof (cases "hasLinker c n \<or> truthy (get_property st n)")
    case True
    with Cons.prems a show ?thesis by (auto split: if_splits)
  next
    case False
    then have "st n = None" by (simp add: not_truthy_unregistered)
    with Cons.prems(2) have nk: "n \<noteq> k" by auto
    from False Cons.prems(1) a
    have "addReducers_forEach c (st(n \<mapsto> v)) rest = (e, st')" by simp
    moreover from nk Cons.prems(2) have "(st(n \<mapsto> v)) k = Some r" by simp
    ultimately show ?thesis by (rule Cons.IH)
  qed
qed

lemma addExpanders_forEach_keeps:
  "addExpanders_forEach st data = (e, st') \<Longrightarrow> st k = Some x \<Longrightarrow> st' k = Some x"
proof (induction data arbitrary: st)
  case Nil
  then show ?case by simp
next
  case (Cons a rest)
  obtain n v where a: "a = (n, v)" by (cases a)
  show ?case
  proof (cases "truthy (get_property st n)")
    case True
    with Cons.prems a show ?thesis by simp
  next
    case False
    then have "st n = None" by (rule not_truthy_unregistered)
    with Cons.prems(2) have nk: "n \<noteq> k" by auto
    from False Cons.prems(1) a
    have "addExpanders_forEach (st(n \<mapsto> v)) rest = (e, st')" by simp
    moreover from nk Cons.prems(2) have "(st(n \<mapsto> v)) k = Some x" by simp
    ultimately show ?thesis by (rule Cons.IH)
  qed
qed

lemma addLinks_keeps_entries:
  "(link_entries c k = Some l \<longrightarrow> link_entries (snd (addLinks L d c data)) k = Some l) \<and>
   REDUCER_STORAGE (snd (addLinks L d c data)) = REDUCER_STORAGE c \<and>
   EXPANDER_STORAGE (snd (addLinks L d c data)) = EXPANDER_STORAGE c"
proof -
  obtain e st' where r: "addLinks_forEach L d c (link_entries c) data = (e, st')"
    by (cases "addLinks_forEach L d c (link_entries c) data")
  from addLinks_run [OF r] addLinks_forEach_keeps [OF r] show ?thesis
    by (simp add: link_entries_def)
qed

lemma addReducers_keeps_entries:
  "(reducer_entries c k = Some r \<longrightarrow> reducer_entries (snd (addReducers c data)) k = Some r) \<and>
   LINK_STORAGE (snd (addReducers c data)) = LINK_STORAGE c \<and>
   EXPANDER_STORAGE (snd (addReducers c data)) = EXPANDER_STORAGE c"
proof -
  obtain e st' where r: "addReducers_forEach c (reducer_entries c) data = (e, st')"
    by (cases "addReducers_forEach c (reducer_entries c) data")
  from addReducers_run [OF r] addReducers_forEach_keeps [OF r] show ?thesis
    by (simp add: reducer_entries_def)
qed

lemma addExpanders_keeps_entries:
  "(expander_entries c k = Some x \<longrightarrow> expander_entries (snd (addExpanders c data)) k = Some x) \<and>
   LINK_STORAGE (snd (addExpanders c data)) = LINK_STORAGE c \<and>
   REDUCER_STORAGE (snd (addExpanders c data)) = REDUCER_STORAGE c"
proof -
  obtain e st' where r: "addExpanders_forEach (expander_entries c) data = (e, st')"
    by (cases "addExpanders_forEach (expander_entries c) data")
  from addExpanders_run [OF r] addExpanders_forEach_keeps [OF r] show ?thesis
    by (simp add: expander_entries_def)
qed











subsection \<open>Names outside \<open>Object.prototype\<close>\<close>

text \<open>
  For a name that is not a member of \<open>Object.prototype\<close> a read of a storage object
  sees the registered entries only, and the lookups behave as lookups in the registries.
\<close>

lemma get_property_plain_name:
  "name \<notin> set Object_prototype_keys \<Longrightarrow>
   get_property storage name = (case storage name of None \<Rightarrow> Undefined | Some v \<Rightarrow> Stored v)"
  by (simp add: get_property_def split: option.splits)

lemma getLinker_plain_name:
  "name \<notin> set Object_prototype_keys \<Longrightarrow>
   getLinker c name =
     (case link_entries c name of None \<Rightarrow> Inl (LinkNotFound name) | Some l \<Rightarrow> Inr (Stored l))"
  by (simp add: getLinker_def link_entries_def get_property_plain_name split: option.splits)

lemma hasLinker_plain_name:
  "name \<notin> set Object_prototype_keys \<Longrightarrow> hasLinker c name = (link_entries c name \<noteq> None)"
  by (auto simp add: hasLinker_def link_entries_def get_property_plain_name split: option.splits)

lemma getReducerConfig_plain_name:
  "name \<notin> set Object_prototype_keys \<Longrightarrow>
   getReducerConfig c name =
     (case reducer_entries c name of None \<Rightarrow> Undefined | Some v \<Rightarrow> Stored v)"
  by (simp add: getReducerConfig_def reducer_entries_def get_property_plain_name
      split: option.splits)

lemma getExpanderConfig_plain_name:
  "name \<notin> set Object_prototype_keys \<Longrightarrow>
   getExpanderConfig c name =
     (case expander_entries c name of None \<Rightarrow> Undefined | Some v \<Rightarrow> Stored v)"
  by (simp add: getExpanderConfig_def expander_entries_def get_property_plain_name
      split: option.splits)

lemma clear_plain_name:
  "name \<notin> set Object_prototype_keys \<Longrightarrow>
   \<not> hasLinker (clear c) name \<and> getLinker (clear c) name = Inl (LinkNotFound name) \<and>
   getReducerConfig (clear c) name = Undefined \<and> getExpanderConfig (clear c) name = Undefined"
  by (simp add: getLinker_def hasLinker_def getReducerConfig_def getExpanderConfig_def
      clear_def get_property_plain_name)

lemma addExpanders_plain_name:
  "name \<notin> set Object_prototype_keys \<Longrightarrow>
   fst (addExpanders c [(name, body)]) =
     (if expander_entries c name = None then None else Some ExpanderAlreadyAdded)"
  by (auto simp add: addExpanders_def expander_entries_def get_property_plain_name Let_def
      split: option.splits)

text \<open>A storage that was never created has no links, whatever the name.\<close>

lemma getLinker_without_storage:
  "LINK_STORAGE c = None \<Longrightarrow> getLinker c name = Inl (LinkNotFound name) \<and> \<not> hasLinker c name"
  by (simp add: getLinker_def hasLinker_def)

subsection \<open>Relations and reducers\<close>

text \<open>\<open>addReducers\<close> rejects the name of a link, whatever else is registered.\<close>

lemma addReducers_rejects_link_name:
  "hasLinker c name \<Longrightarrow> fst (addReducers c [(name, cfg)]) = Some (ReducerIsLink name)"
  by (simp add: addReducers_def Let_def)

text \<open>
  C2: relations and reducers are meant to share one namespace, and \<open>addReducers\<close>
  enforces it (lemma \<open>addReducers_rejects_link_name\<close>). \<open>addLinks\<close> does not: it reads
  the link storage only. On the example collection, where \<open>commentCount\<close> is a reducer,
  \<open>addLinks(c, {commentCount: {}})\<close> returns normally, and afterwards the name is both a
  link and a reducer.
\<close>

theorem addLinks_accepts_reducer_name:
  "getReducerConfig example_collection ''commentCount'' = Stored ''reducer config'' \<and>
   fst (addLinks plain_Linker example_defaults example_collection
          [(''commentCount'', no_options)]) = None \<and>
   hasLinker (snd (addLinks plain_Linker example_defaults example_collection
          [(''commentCount'', no_options)])) ''commentCount'' \<and>
   getReducerConfig (snd (addLinks plain_Linker example_defaults example_collection
          [(''commentCount'', no_options)])) ''commentCount'' = Stored ''reducer config''"
  by (simp add: api_defs example_defs)

subsection \<open>Looking up and registering links\<close>

text \<open>
  C5: \<open>getLinker\<close> is meant to fail exactly when no relation of that name is registered.
  After \<open>clear\<close> no relation is registered at all, yet \<open>getLinker(c, "toString")\<close> does
  not fail: the read of the empty storage object finds \<open>Object.prototype.toString\<close>,
  which is truthy, and returns it.
\<close>

theorem getLinker_finds_inherited_member:
  "getLinker (clear c) ''toString'' = Inr (Inherited ''toString'')"
  by (simp add: api_defs)

text \<open>
  C6: when a relation is registered under \<open>name\<close>, \<open>addLinks(collection, {name: cfg})\<close>
  fails, the collection stays as it was, and \<open>getLinker\<close> still returns the linker
  registered before.
\<close>

theorem addLinks_rejects_registered_name:
  assumes "LINK_STORAGE c = Some storage" and "storage name = Some linker"
  shows "addLinks L d c [(name, cfg)] = (Some (LinkAlreadyAdded name), c) \<and>
         getLinker (snd (addLinks L d c [(name, cfg)])) name = Inr (Stored linker)"
proof -
  from assms have t: "get_property storage name = Stored linker"
    by (simp add: get_property_def)
  with assms(1) have "addLinks L d c [(name, cfg)] = (Some (LinkAlreadyAdded name), c)"
    by (simp add: addLinks_def)
  moreover from assms(1) t have "getLinker c name = Inr (Stored linker)"
    by (simp add: getLinker_def)
  ultimately show ?thesis by simp
qed

theorem addLinks_rejects_registered_name_witness:
  "LINK_STORAGE example_collection =
     Some [''author'' \<mapsto> (''author'', example_defaults ++ author_options)] \<and>
   [''author'' \<mapsto> (''author'', example_defaults ++ author_options)] ''author'' =
     Some (''author'', example_defaults ++ author_options) \<and>
   addLinks plain_Linker example_defaults example_collection [(''author'', no_options)] =
     (Some (LinkAlreadyAdded ''author''), example_collection) \<and>
   getLinker (snd (addLinks plain_Linker example_defaults example_collection
                     [(''author'', no_options)])) ''author'' =
     Inr (Stored (''author'', example_defaults ++ author_options))"
proof -
  have s: "LINK_STORAGE example_collection =
     Some [''author'' \<mapsto> (''author'', example_defaults ++ author_options)]"
    by (simp add: example_collection_def)
  have n: "[''author'' \<mapsto> (''author'', example_defaults ++ author_options)] ''author'' =
     Some (''author'', example_defaults ++ author_options)"
    by simp
  from addLinks_rejects_registered_name [OF s n, of plain_Linker example_defaults no_options] s n
  show ?thesis by blast
qed

text \<open>
  Registration followed by lookup: after a successful
  \<open>addLinks(collection, {name: cfg})\<close>, \<open>hasLinker\<close> returns true for \<open>name\<close> and
  \<open>getLinker\<close> returns the \<open>Linker\<close> that the constructor built for the collection and
  the name from the defaults overridden by \<open>cfg\<close>; on a collection whose link storage
  was never created \<open>hasLinker\<close> returns false for every name.
\<close>

lemma addLinks_round_trip:
  "(fst (addLinks L d c [(name, cfg)]) = None \<longrightarrow>
      hasLinker (snd (addLinks L d c [(name, cfg)])) name \<and>
      (\<exists>linker. L (c\<lparr>LINK_STORAGE := Some (link_entries c)\<rparr>) name (d ++ cfg) = Some linker \<and>
         getLinker (snd (addLinks L d c [(name, cfg)])) name = Inr (Stored linker))) \<and>
   (LINK_STORAGE c = None \<longrightarrow> \<not> hasLinker c name)"
  by (auto simp add: addLinks_def hasLinker_def getLinker_def get_property_def Let_def
      link_entries_def split: if_splits option.splits)

lemma addLinks_round_trip_example:
  "fst (addLinks plain_Linker example_defaults fresh_collection
          [(''author'', author_options)]) = None \<and>
   hasLinker (snd (addLinks plain_Linker example_defaults fresh_collection
          [(''author'', author_options)])) ''author'' \<and>
   getLinker (snd (addLinks plain_Linker example_defaults fresh_collection
          [(''author'', author_options)])) ''author'' =
     Inr (Stored (''author'', example_defaults ++ author_options)) \<and>
   LINK_STORAGE fresh_collection = None \<and> \<not> hasLinker fresh_collection ''author''"
proof -
  have s: "fst (addLinks plain_Linker example_defaults fresh_collection
          [(''author'', author_options)]) = None"
    by (simp add: api_defs fresh_collection_def plain_Linker_def)
  have f: "LINK_STORAGE fresh_collection = None"
    by (simp add: fresh_collection_def)
  from addLinks_round_trip [of plain_Linker example_defaults fresh_collection "''author''"
      author_options] s f
  show ?thesis by (auto simp add: plain_Linker_def)
qed

text \<open>
  C8: registration and lookup are meant to agree, and before any registration
  \<open>hasLinker\<close> is meant to return false. The first half holds (lemma
  \<open>addLinks_round_trip\<close>), and so does the second on a collection whose link storage
  was never created. But a collection on which nothing is registered may have a link
  storage: after \<open>clear(c)\<close>, or after \<open>addLinks(c, {})\<close>, it is the empty object. There
  no link is registered, and \<open>hasLinker(c, "toString")\<close> returns true, because the read
  of the empty storage object finds \<open>Object.prototype.toString\<close>.
\<close>

theorem hasLinker_true_before_any_registration:
  "link_entries (clear fresh_collection) ''toString'' = None \<and>
   hasLinker (clear fresh_collection) ''toString'' \<and>
   fst (addLinks plain_Linker example_defaults fresh_collection []) = None \<and>
   link_entries (snd (addLinks plain_Linker example_defaults fresh_collection []))
     ''toString'' = None \<and>
   hasLinker (snd (addLinks plain_Linker example_defaults fresh_collection [])) ''toString''"
  by (simp add: api_defs fresh_collection_def link_entries_def)

text \<open>
  A name that is not registered, is not a member of \<open>Object.prototype\<close> and is accepted
  by the \<open>Linker\<close> constructor can be registered.
\<close>

lemma addLinks_succeeds:
  "name \<notin> set Object_prototype_keys \<Longrightarrow> link_entries c name = None \<Longrightarrow>
   L (c\<lparr>LINK_STORAGE := Some (link_entries c)\<rparr>) name (d ++ cfg) = Some linker \<Longrightarrow>
   addLinks L d c [(name, cfg)] = (None, c\<lparr>LINK_STORAGE := Some ((link_entries c)(name \<mapsto> linker))\<rparr>)"
  by (simp add: addLinks_def link_entries_def get_property_plain_name Let_def
      split: option.splits)

subsection \<open>Expanders, \<open>clear\<close> and the configuration lookups\<close>

text \<open>
  C7: \<open>addExpanders\<close> is meant to fail exactly when the name is already an expander. On
  a collection without any expander, cleared or new, \<open>addExpanders(c, {toString: body})\<close>
  fails with "This expander was already added": the check reads
  \<open>Object.prototype.toString\<close> from the empty storage object.
\<close>

theorem addExpanders_rejects_inherited_name:
  "addExpanders (clear c) [(''toString'', body)] = (Some ExpanderAlreadyAdded, clear c) \<and>
   fst (addExpanders fresh_collection [(''toString'', body')]) = Some ExpanderAlreadyAdded"
  by (simp add: api_defs fresh_collection_def)

text \<open>
  C9: after \<open>clear\<close> nothing is registered, and every lookup is meant to say so. For the
  name \<open>constructor\<close> none does: \<open>hasLinker\<close> returns true, \<open>getLinker\<close> returns without
  failing, and both configuration lookups return \<open>Object.prototype.constructor\<close>.
\<close>

theorem clear_leaves_inherited_members:
  "hasLinker (clear c) ''constructor'' \<and>
   getLinker (clear c) ''constructor'' = Inr (Inherited ''constructor'') \<and>
   getReducerConfig (clear c) ''constructor'' = Inherited ''constructor'' \<and>
   getExpanderConfig (clear c) ''constructor'' = Inherited ''constructor''"
  by (simp add: api_defs)

text \<open>
  C10: \<open>getReducerConfig\<close> and \<open>getExpanderConfig\<close> are meant to return \<open>undefined\<close> for
  a name without a registered reducer or expander. On the example collection no reducer
  and no expander is called \<open>valueOf\<close>, yet both return \<open>Object.prototype.valueOf\<close>.
  Neither function throws.
\<close>

theorem config_lookup_finds_inherited_member:
  "reducer_entries example_collection ''valueOf'' = None \<and>
   getReducerConfig example_collection ''valueOf'' = Inherited ''valueOf'' \<and>
   expander_entries example_collection ''valueOf'' = None \<and>
   getExpanderConfig example_collection ''valueOf'' = Inherited ''valueOf''"
  by (simp add: api_defs example_defs reducer_entries_def expander_entries_def)

section \<open>Properties of execution and assembly\<close>




subsection \<open>Store operations\<close>



text \<open>The two fallbacks: one operation per parent document, or per distinct parent key.\<close>

lemma plan_dynamic:
  "meta n = Dynamic f \<Longrightarrow> length (plan path n P) = length P"
  by (simp add: plan_def)

lemma plan_paginated:
  "meta n = Static cfg \<Longrightarrow> paginated cfg \<Longrightarrow> \<not> unique (relation n) \<Longrightarrow>
   length (plan path n P) = length (foreign_keys (relation n) P)"
  by (simp add: plan_def)









subsection \<open>Assembly\<close>











end
